theory Spec2Isabelle
  imports Main
begin

section \<open>JavaScript values\<close>

text \<open>
  The command line tool is JavaScript. The values that flow through the code under study
  are strings, \<open>undefined\<close>, \<open>null\<close>, booleans and arrays; template literals convert
  them to strings with \<open>ToString\<close>, conditions test their truthiness.
  Strings are lists of characters with codes below 256.
\<close>

datatype jsval = JUndefined | JNull | JBool bool | JString string | JArray "jsval list"

datatype jserror = Error (message: string)

text \<open>What reading a name that no enclosing scope binds throws.\<close>

definition ReferenceError :: "string \<Rightarrow> jserror" where
  "ReferenceError name = Error (name @ '' is not defined'')"

fun join :: "string \<Rightarrow> string list \<Rightarrow> string" where
  "join sep [] = []"
| "join sep [x] = x"
| "join sep (x # y # ys) = x @ sep @ join sep (y # ys)"

text \<open>
  \<open>ToString\<close>, as a template literal \<open>`${v}`\<close> applies it. An array is joined with
  commas, and \<open>Array.prototype.join\<close> prints \<open>undefined\<close> and \<open>null\<close> elements as
  the empty string.
\<close>

fun js_toString :: "jsval \<Rightarrow> string" where
  "js_toString JUndefined = ''undefined''"
| "js_toString JNull = ''null''"
| "js_toString (JBool b) = (if b then ''true'' else ''false'')"
| "js_toString (JString s) = s"
| "js_toString (JArray xs) =
     join '','' (map (\<lambda>x. if x = JUndefined \<or> x = JNull then [] else js_toString x) xs)"

fun js_truthy :: "jsval \<Rightarrow> bool" where
  "js_truthy JUndefined = False"
| "js_truthy JNull = False"
| "js_truthy (JBool b) = b"
| "js_truthy (JString s) = (s \<noteq> [])"
| "js_truthy (JArray xs) = True"

text \<open>A natural number in decimal, as an index prints in an error message.\<close>

fun decimal :: "nat \<Rightarrow> string" where
  "decimal n =
     (if n < 10 then [''0123456789'' ! n]
      else decimal (n div 10) @ [''0123456789'' ! (n mod 10)])"

text \<open>
  Property access \<open>v[i]\<close> with a constant index: an element of an array or a character
  of a string, \<open>undefined\<close> out of range, and a \<open>TypeError\<close> on \<open>undefined\<close> and
  \<open>null\<close>, with the message of the engine.
\<close>

fun js_index :: "jsval \<Rightarrow> nat \<Rightarrow> jserror + jsval" where
  "js_index JUndefined i =
     Inl (Error (''Cannot read properties of undefined (reading '' @ [CHR 0x27] @ decimal i @
                 [CHR 0x27] @ '')''))"
| "js_index JNull i =
     Inl (Error (''Cannot read properties of null (reading '' @ [CHR 0x27] @ decimal i @
                 [CHR 0x27] @ '')''))"
| "js_index (JBool b) i = Inr JUndefined"
| "js_index (JString s) i = Inr (if i < length s then JString [s ! i] else JUndefined)"
| "js_index (JArray xs) i = Inr (if i < length xs then xs ! i else JUndefined)"

section \<open>Effects\<close>

text \<open>
  What a command does to the outside is recorded as a list of events in the order they
  happen: clearing the screen, the spinner, the alerts printed to the user, the HTTP
  requests handed to \<open>axios\<close>, and the URLs handed to \<open>opn\<close>. \<open>alert.error\<close> is
  called with a string everywhere but in the init branch, where it gets the error object
  that was caught.
\<close>

record request =
  http_method :: string
  url :: string
  headers :: "(string \<times> string) list"
  data :: string

datatype event =
    ClearScreen
  | SpinnerStart string
  | SpinnerStop
  | AlertSuccess string
  | AlertWarning string
  | AlertError string
  | AlertErrorObject jserror
  | Post request
  | Opn string

fun posts_of :: "event list \<Rightarrow> request list" where
  "posts_of [] = []"
| "posts_of (Post r # evs) = r # posts_of evs"
| "posts_of (_ # evs) = posts_of evs"

fun errors_of :: "event list \<Rightarrow> string list" where
  "errors_of [] = []"
| "errors_of (AlertError m # evs) = m # errors_of evs"
| "errors_of (_ # evs) = errors_of evs"

fun warnings_of :: "event list \<Rightarrow> string list" where
  "warnings_of [] = []"
| "warnings_of (AlertWarning m # evs) = m # warnings_of evs"
| "warnings_of (_ # evs) = warnings_of evs"

section \<open>lib/qb.js\<close>

definition nl :: string where
  "nl = [CHR 0x0A]"

definition indent :: "nat \<Rightarrow> string" where
  "indent n = replicate n CHR '' ''"

text \<open>The template literal of \<open>addUpdateDbPage\<close>, line breaks and indentation included.\<close>

definition qdbapi :: "jsval \<Rightarrow> jsval \<Rightarrow> jsval \<Rightarrow> string \<Rightarrow> string" where
  "qdbapi pagename pagebody usertoken apptokenString =
     nl @ indent 12 @ ''<qdbapi>'' @
     nl @ indent 16 @ ''<pagename>'' @ js_toString pagename @ ''</pagename>'' @
     nl @ indent 16 @ ''<pagetype>1</pagetype>'' @
     nl @ indent 16 @ ''<pagebody><![CDATA['' @ js_toString pagebody @ '']]></pagebody>'' @
     nl @ indent 16 @ ''<usertoken>'' @ js_toString usertoken @ ''</usertoken>'' @
     nl @ indent 16 @ apptokenString @
     nl @ indent 12 @ ''</qdbapi>'' @
     nl @ indent 8"

text \<open>The object literal \<open>addUpdateDbPage\<close> passes to \<open>axios\<close>.\<close>

definition axios_config :: "jsval \<Rightarrow> jsval \<Rightarrow> jsval \<Rightarrow> jsval \<Rightarrow> jsval \<Rightarrow> jsval \<Rightarrow> request" where
  "axios_config dbid realm usertoken apptoken pagename pagebody =
     (let url = js_toString realm @ ''/db/'' @ js_toString dbid;
          apptokenString =
            (if js_truthy apptoken
             then ''<apptoken>'' @ js_toString apptoken @ ''</apptoken>''
             else [])
      in \<lparr> http_method = ''post'', url = url,
           headers = [(''X_QUICKBASE_RETURN_HTTP_ERROR'', ''true''),
                      (''QUICKBASE-ACTION'', ''API_AddReplaceDBPage''),
                      (''Content-Type'', ''application/xml'')],
           data = qdbapi pagename pagebody usertoken apptokenString \<rparr>)"

text \<open>
  \<open>addUpdateDbPage(dbid, realm, usertoken, apptoken = null, formattedFiles)\<close> reads
  \<open>formattedFiles[1]\<close> and \<open>formattedFiles[0]\<close>, builds the URL and the document, and
  hands one request to \<open>axios\<close>, whose promise it returns. \<open>axios\<close> is the environment:
  it answers a request with \<open>None\<close> (resolved) or with the error it rejects with.
\<close>

definition addUpdateDbPage ::
  "(request \<Rightarrow> jserror option) \<Rightarrow> jsval \<Rightarrow> jsval \<Rightarrow> jsval \<Rightarrow> jsval \<Rightarrow> jsval
     \<Rightarrow> event list \<times> jserror option" where
  "addUpdateDbPage ax dbid realm usertoken apptoken0 formattedFiles =
     (let apptoken = (if apptoken0 = JUndefined then JNull else apptoken0) in
      case js_index formattedFiles 1 of
        Inl e \<Rightarrow> ([], Some e)
      | Inr pagebody \<Rightarrow>
          (case js_index formattedFiles 0 of
             Inl e \<Rightarrow> ([], Some e)
           | Inr pagename \<Rightarrow>
               (let req = axios_config dbid realm usertoken apptoken pagename pagebody
                in ([Post req], ax req))))"

section \<open>The manifest and the environment of a command\<close>

text \<open>
  An entry of \<open>filesConf\<close> in \<open>qbcli.json\<close>. \<open>isIndexFile\<close> is whatever JSON value
  the file holds (the template writes the boolean \<open>false\<close>, the loader compares with the
  string \<open>'yes'\<close>), \<open>undefined\<close> when the key is absent.
\<close>

record fileConf =
  filename :: string
  path :: string
  dependencies :: "nat list option"
  isIndexFile :: jsval

text \<open>
  The object read from and written to \<open>qbcli.json\<close>. A scalar field that the file
  does not have reads as \<open>undefined\<close>. \<open>filesConf\<close> is a list: a manifest without
  that key, on which \<open>run\<close> throws at \<open>filesConf.length\<close>, is not among the inputs.
\<close>

record manifest =
  urlQueryString :: jsval
  repositoryId :: jsval
  prodPrefix :: jsval
  devPrefix :: jsval
  dbid :: jsval
  devDbid :: jsval
  devAndProdQuickBaseApplications :: jsval
  realm :: jsval
  filesConf :: "fileConf list"

text \<open>What \<open>Configstore\<close> keeps per repository, outside the project.\<close>

record devconfig =
  customPrefixFeature :: jsval

datatype deploymentType = Dev | Prod | Feat

fun deploymentType_str :: "deploymentType \<Rightarrow> string" where
  "deploymentType_str Dev = ''dev''"
| "deploymentType_str Prod = ''prod''"
| "deploymentType_str Feat = ''feat''"

text \<open>
  \<open>lib/files\<close> is not part of the repository's sources as given; the functions the commands call are
  parameters. \<open>getFileContents\<close> may reject and \<open>saveJSONToFile\<close> may throw
  (\<open>Some e\<close>); the latter is always called with the name of \<open>qbcli.json\<close>.
\<close>

record files_lib =
  fileFolderExists :: "string \<Rightarrow> bool"
  getFileContents :: "string \<Rightarrow> jserror + string"
  saveJSONToFile :: "manifest \<Rightarrow> jserror option"

text \<open>
  Everything a command reads from outside: \<open>qbcli.json\<close> in the working directory
  (\<open>None\<close> when the file does not exist), the file helpers, the per-developer store,
  the answer the confirmation prompt returns, \<open>helpers.prefixGenerator\<close> (not part of the
  repository's sources as given either), \<open>process.env\<close>, and the server: \<open>axios w k\<close> answers the
  request of upsert call number \<open>k\<close> of the run, counted from 0.
\<close>

record world =
  qbcli :: "manifest option"
  files :: files_lib
  configurationFile :: "jsval \<Rightarrow> devconfig option"
  confirmation :: "deploymentType \<Rightarrow> string"
  prefixGenerator :: "jsval \<Rightarrow> jsval \<Rightarrow> jsval \<Rightarrow> deploymentType \<Rightarrow> jsval \<Rightarrow> jserror + string"
  env :: "string \<rightharpoonup> string"
  axios :: "nat \<Rightarrow> request \<Rightarrow> jserror option"

definition env_get :: "(string \<rightharpoonup> string) \<Rightarrow> string \<Rightarrow> jsval" where
  "env_get e k = (case e k of None \<Rightarrow> JUndefined | Some s \<Rightarrow> JString s)"

section \<open>index.js: the deploy command\<close>

definition msg_root :: string where
  "msg_root = ''This deployqb command can only be run from the root of your directory.''"

definition msg_list_files :: string where
  "msg_list_files = ''You must list files to deploy in your qbcli.json.''"

definition msg_init :: string where
  "msg_init = ''Project may never have been initialized - please run deployqb init.''"

definition msg_check :: string where
  "msg_check = ''Please check your qbcli.json in the root of your project. Make sure you have mapped the correct path to all of the files you are trying to deploy. Also, check all filenames match what is in those directories, and that all files have content (this tool will not deploy blank files - add a comment in the file if you would like to deploy without code).''"

definition msg_check_catch :: string where
  "msg_check_catch = ''Please check your qbcli.json in the root of your project. Make sure you have mapped the correct path to all of the files you are trying to deploy. Also, check all filenames match what is in those directories and make sure those files have content (this tool will not deploy blank files - add a comment if you would like to deploy without code).''"

text \<open>
  The loop of \<open>getAllFileContents\<close>: an entry whose \<open>filename\<close> exists is read and
  pushed as \<open>[fileName, fileContents, isIndexFile]\<close>; any other entry is passed over.
  The test and the read both take \<open>fileConf.filename\<close>; \<open>fileConf.path\<close> is not used.
\<close>

fun loadLoop ::
  "files_lib \<Rightarrow> fileConf list \<Rightarrow> (string \<times> string \<times> bool) list
     \<Rightarrow> jserror + (string \<times> string \<times> bool) list" where
  "loadLoop fl [] arrayOfFileContents = Inr arrayOfFileContents"
| "loadLoop fl (fc # rest) arrayOfFileContents =
     (let fileName = filename fc in
      if fileFolderExists fl fileName
      then (case getFileContents fl fileName of
              Inl e \<Rightarrow> Inl e
            | Inr fileContents \<Rightarrow>
                loadLoop fl rest
                  (arrayOfFileContents @ [(fileName, fileContents, isIndexFile fc = JString ''yes'')]))
      else loadLoop fl rest arrayOfFileContents)"

text \<open>
  \<open>getAllFileContents(filesConf, prefix)\<close>: the spinner starts, the loop runs, the
  spinner stops. When a read rejects the function rejects and the spinner is left running.
\<close>

definition getAllFileContents ::
  "files_lib \<Rightarrow> fileConf list \<Rightarrow> string
     \<Rightarrow> event list \<times> (jserror + (string \<times> string \<times> bool) list)" where
  "getAllFileContents fl fcs prefix =
     (case loadLoop fl fcs [] of
        Inl e \<Rightarrow> ([SpinnerStart ''Loading files...''], Inl e)
      | Inr arrayOfFileContents \<Rightarrow>
          ([SpinnerStart ''Loading files...'', SpinnerStop], Inr arrayOfFileContents))"

text \<open>
  \<open>handleAPICalls(deploymentType, formattedFiles, existingQbCliConfigs)\<close>: one call of
  \<open>addUpdateDbPage\<close> inside \<open>try\<close>; a rejection is caught here, its \<open>message\<close> is
  printed, and the function returns normally either way.
\<close>

definition handleAPICalls ::
  "(request \<Rightarrow> jserror option) \<Rightarrow> (string \<rightharpoonup> string) \<Rightarrow> deploymentType \<Rightarrow> jsval \<Rightarrow> manifest
     \<Rightarrow> event list" where
  "handleAPICalls ax e deploymentType formattedFiles existingQbCliConfigs =
     (let usertoken = env_get e ''USERTOKEN'';
          apptoken = env_get e ''APP_TOKEN'';
          (sent, r) = addUpdateDbPage ax (dbid existingQbCliConfigs) (realm existingQbCliConfigs)
                        usertoken apptoken formattedFiles
      in [SpinnerStart ''Deploying files...''] @ sent @
         (case r of
            None \<Rightarrow>
              [SpinnerStop,
               AlertSuccess (''Files have been successfully deployed to the '' @
                             deploymentType_str deploymentType @ '' environment.'')]
          | Some err \<Rightarrow> [SpinnerStop, AlertError (message err)]))"

text \<open>
  The \<open>map\<close> over the loaded triples: each becomes \<open>[prefix + fileName, fileContents]\<close>,
  and the callback assigns \<open>indexFileName\<close> whenever the triple is flagged.
\<close>

fun mapFiles ::
  "string \<Rightarrow> (string \<times> string \<times> bool) list \<Rightarrow> string option \<Rightarrow> jsval list \<times> string option" where
  "mapFiles prefix [] indexFileName = ([], indexFileName)"
| "mapFiles prefix ((fileName, fileContents, isIndex) # rest) indexFileName =
     (let indexFileName' = (if isIndex then Some fileName else indexFileName);
          (formatted, final) = mapFiles prefix rest indexFileName'
      in (JArray [JString (prefix @ fileName), JString fileContents] # formatted, final))"

text \<open>
  \<open>for (i = 0; i < formattedFiles.length; i++) await handleAPICalls(..., formattedFiles[i], ...)\<close>:
  the calls run one after the other, \<open>i\<close> counts them.
\<close>

fun deployLoop ::
  "world \<Rightarrow> deploymentType \<Rightarrow> manifest \<Rightarrow> nat \<Rightarrow> jsval list \<Rightarrow> event list" where
  "deployLoop w deploymentType cfg i [] = []"
| "deployLoop w deploymentType cfg i (f # rest) =
     handleAPICalls (axios w i) (env w) deploymentType f cfg @
     deployLoop w deploymentType cfg (Suc i) rest"

text \<open>
  The deploy branch of \<open>run\<close>. The result is the events of the run and how it ended:
  \<open>None\<close> when \<open>run\<close> returned, \<open>Some e\<close> when it rejected with \<open>e\<close>
  (\<open>prefixGenerator\<close> is called outside the \<open>try\<close>). The middle component is
  \<open>indexFileName\<close> as the \<open>map\<close> left it, when the run got that far.
\<close>

definition run_deploy ::
  "world \<Rightarrow> deploymentType \<Rightarrow> event list \<times> string option \<times> jserror option" where
  "run_deploy w deploymentType =
     (case qbcli w of
        None \<Rightarrow> ([AlertError msg_root], None, None)
      | Some existingQbCliConfigs \<Rightarrow>
          if length (filesConf existingQbCliConfigs) < 1
          then ([AlertError msg_list_files], None, None)
          else
            (case configurationFile w (repositoryId existingQbCliConfigs) of
               None \<Rightarrow> ([AlertError msg_init], None, None)
             | Some configs \<Rightarrow>
                 if (deploymentType = Prod \<or> deploymentType = Dev) \<and>
                    confirmation w deploymentType \<noteq> ''yes''
                 then ([], None, None)
                 else
                   (case prefixGenerator w (devPrefix existingQbCliConfigs)
                           (prodPrefix existingQbCliConfigs) (customPrefixFeature configs)
                           deploymentType (repositoryId existingQbCliConfigs) of
                      Inl e \<Rightarrow> ([], None, Some e)
                    | Inr prefix \<Rightarrow>
                        (case getAllFileContents (files w) (filesConf existingQbCliConfigs) prefix of
                           (evs, Inl err) \<Rightarrow> (evs @ [AlertError msg_check_catch], None, None)
                         | (evs, Inr arrayOfFileContents) \<Rightarrow>
                             if length arrayOfFileContents < 1
                             then (evs @ [AlertError msg_check], None, None)
                             else
                               (let (formattedFiles, indexFileName) =
                                      mapFiles prefix arrayOfFileContents None
                                in (evs @ deployLoop w deploymentType existingQbCliConfigs 0
                                            formattedFiles,
                                    indexFileName, None))))))"

section \<open>The variant of the deploy command in part\_000\<close>

text \<open>
  The other copy of \<open>index.js\<close> calls \<open>getAllFileContents\<close> and \<open>handleAPICalls\<close> in
  its deploy branch but neither defines nor imports them (its last definition is
  \<open>generateLinks\<close>). A call of either name therefore throws a \<open>ReferenceError\<close>
  before anything else happens: no spinner, no file read, no request.
\<close>

definition part000_getAllFileContents ::
  "fileConf list \<Rightarrow> string \<Rightarrow> event list \<times> (jserror + (string \<times> string \<times> bool) list)" where
  "part000_getAllFileContents fcs prefix = ([], Inl (ReferenceError ''getAllFileContents''))"

definition part000_handleAPICalls ::
  "deploymentType \<Rightarrow> jsval \<Rightarrow> manifest \<Rightarrow> event list \<times> jserror option" where
  "part000_handleAPICalls deploymentType formattedFiles existingQbCliConfigs =
     ([], Some (ReferenceError ''handleAPICalls''))"

text \<open>
  The deploy branch of \<open>run\<close> in that copy. It is the branch of \<open>index.js\<close> down to the
  \<open>map\<close>; behind the \<open>map\<close> it makes one call of \<open>handleAPICalls\<close> with the whole
  array, where \<open>index.js\<close> loops. Both calls are inside the \<open>try\<close>, whose \<open>catch\<close>
  prints its message and returns.
\<close>

definition run_deploy_part000 ::
  "world \<Rightarrow> deploymentType \<Rightarrow> event list \<times> string option \<times> jserror option" where
  "run_deploy_part000 w deploymentType =
     (case qbcli w of
        None \<Rightarrow> ([AlertError msg_root], None, None)
      | Some existingQbCliConfigs \<Rightarrow>
          if length (filesConf existingQbCliConfigs) < 1
          then ([AlertError msg_list_files], None, None)
          else
            (case configurationFile w (repositoryId existingQbCliConfigs) of
               None \<Rightarrow> ([AlertError msg_init], None, None)
             | Some configs \<Rightarrow>
                 if (deploymentType = Prod \<or> deploymentType = Dev) \<and>
                    confirmation w deploymentType \<noteq> ''yes''
                 then ([], None, None)
                 else
                   (case prefixGenerator w (devPrefix existingQbCliConfigs)
                           (prodPrefix existingQbCliConfigs) (customPrefixFeature configs)
                           deploymentType (repositoryId existingQbCliConfigs) of
                      Inl e \<Rightarrow> ([], None, Some e)
                    | Inr prefix \<Rightarrow>
                        (case part000_getAllFileContents (filesConf existingQbCliConfigs) prefix of
                           (evs, Inl err) \<Rightarrow> (evs @ [AlertError msg_check_catch], None, None)
                         | (evs, Inr arrayOfFileContents) \<Rightarrow>
                             if length arrayOfFileContents < 1
                             then (evs @ [AlertError msg_check], None, None)
                             else
                               (let (formattedFiles, indexFileName) =
                                      mapFiles prefix arrayOfFileContents None;
                                    (sent, thrown) =
                                      part000_handleAPICalls deploymentType
                                        (JArray formattedFiles) existingQbCliConfigs
                                in case thrown of
                                     Some err \<Rightarrow>
                                       (evs @ sent @ [AlertError msg_check_catch],
                                        indexFileName, None)
                                   | None \<Rightarrow> (evs @ sent, indexFileName, None))))))"

section \<open>lib/qbcliTemplate.js and the init command\<close>

text \<open>
  The template reads \<open>process.env\<close> and takes no argument; its \<open>filesConf\<close> is the
  two example entries.
\<close>

definition qbcliTemplate :: "(string \<rightharpoonup> string) \<Rightarrow> manifest" where
  "qbcliTemplate e =
     (let repositoryId = env_get e ''REPOSITORY_ID'';
          customPrefixProduction = env_get e ''CUSTOM_PREFIX_PRODUCTION'';
          customPrefix = env_get e ''CUSTOM_PREFIX'';
          dbid = env_get e ''DBID'';
          devAndProd = env_get e ''DEV_AND_PROD_QUICKBASE_APPLICATIONS'';
          devDbid = (if devAndProd = JString ''yes'' then env_get e ''DEV_DBID'' else JString []);
          realm = env_get e ''REALM''
      in \<lparr> urlQueryString = JString [],
           repositoryId = repositoryId,
           prodPrefix = customPrefixProduction,
           devPrefix = customPrefix,
           dbid = dbid,
           devDbid = devDbid,
           devAndProdQuickBaseApplications = devAndProd,
           realm = realm,
           filesConf =
             [\<lparr> filename = ''exampleFileName.js'', path = ''./example/'',
                 dependencies = None, isIndexFile = JUndefined \<rparr>,
              \<lparr> filename = ''example.html'', path = ''./examplefolder/subfolder/'',
                 dependencies = Some [1, 3], isIndexFile = JBool False \<rparr>] \<rparr>)"

text \<open>\<open>if (!process.env.K) process.env.K = v\<close>\<close>

definition env_default :: "string \<Rightarrow> string \<Rightarrow> (string \<rightharpoonup> string) \<Rightarrow> (string \<rightharpoonup> string)" where
  "env_default k v e = (if js_truthy (env_get e k) then e else e(k \<mapsto> v))"

definition msg_created :: string where
  "msg_created = ''A qbcli.json file has been created in the root of your project directory. Please update this file to include all files that you need to deploy to QB''"

text \<open>
  The object \<open>data\<close> of the init branch: the template, with \<open>urlQueryString\<close> and
  \<open>filesConf\<close> taken over from \<open>qbcli.json\<close> when that file exists.
\<close>

definition init_data :: "(string \<rightharpoonup> string) \<Rightarrow> manifest option \<Rightarrow> manifest" where
  "init_data e existing =
     (let data = qbcliTemplate e in
      case existing of
        None \<Rightarrow> data
      | Some existingQbCliConfigs \<Rightarrow>
          data\<lparr> urlQueryString := urlQueryString existingQbCliConfigs,
                filesConf := filesConf existingQbCliConfigs \<rparr>)"

text \<open>
  \<open>configurationFile.set(repositoryId, {customPrefixFeature})\<close>: \<open>Configstore\<close> stores
  under a string key and leaves the store as it is when the key is not a string (an unset
  \<open>REPOSITORY_ID\<close>).
\<close>

definition saveFeaturePrefix ::
  "(jsval \<Rightarrow> devconfig option) \<Rightarrow> jsval \<Rightarrow> jsval \<Rightarrow> (jsval \<Rightarrow> devconfig option)" where
  "saveFeaturePrefix store repoId feature =
     (case repoId of
        JString k \<Rightarrow> store(repoId := Some \<lparr> customPrefixFeature = feature \<rparr>)
      | _ \<Rightarrow> store)"

text \<open>
  The init branch of \<open>run\<close> in \<open>index.js\<close>. It returns the world it leaves behind
  (the environment with the defaults set, the per-developer store, and \<open>qbcli.json\<close>
  when the save went through) and the events.
\<close>

definition run_init :: "world \<Rightarrow> world \<times> event list" where
  "run_init w =
     (let repoId = env_get (env w) ''REPOSITORY_ID'';
          e = env_default ''CUSTOM_PREFIX_FEATURE'' ''F''
                (env_default ''CUSTOM_PREFIX_PROD'' ''P''
                  (env_default ''CUSTOM_PREFIX'' ''D'' (env w)));
          data = init_data e (qbcli w);
          store = saveFeaturePrefix (configurationFile w) repoId
                    (env_get e ''CUSTOM_PREFIX_FEATURE'');
          w' = w\<lparr> env := e, configurationFile := store \<rparr>
      in case saveJSONToFile (files w) data of
           Some err \<Rightarrow> (w', [ClearScreen, AlertErrorObject err])
         | None \<Rightarrow> (w'\<lparr> qbcli := Some data \<rparr>, [ClearScreen, AlertSuccess msg_created]))"

text \<open>
  The init branch of the other copy (part\_000) takes the answers of the prompt,
  \<open>input\<close>, sets the defaults on it, and calls \<open>qbcliTemplate(input)\<close>; the template
  ignores the argument. Of \<open>input\<close> only \<open>repositoryId\<close> and \<open>customPrefixFeature\<close>
  reach the state modelled here; the tokens go to the keychain, which is left out.
\<close>

record init_input =
  input_repositoryId :: jsval
  input_customPrefixFeature :: jsval

definition run_init_part000 :: "world \<Rightarrow> init_input \<Rightarrow> world \<times> event list" where
  "run_init_part000 w input =
     (let repoId = input_repositoryId input;
          feature = (if js_truthy (input_customPrefixFeature input)
                     then input_customPrefixFeature input else JString ''F'');
          data = init_data (env w) (qbcli w);
          store = saveFeaturePrefix (configurationFile w) repoId feature;
          w' = w\<lparr> configurationFile := store \<rparr>
      in case saveJSONToFile (files w) data of
           Some err \<Rightarrow> (w', [ClearScreen, AlertErrorObject err])
         | None \<Rightarrow> (w'\<lparr> qbcli := Some data \<rparr>, [ClearScreen, AlertSuccess msg_created]))"

section \<open>The launch command\<close>

text \<open>
  \<open>encodeURI\<close> on strings of characters below 256: a character of the unescaped set
  (letters, digits, the marks \<open>- _ . ! ~ * ' ( )\<close>, the reserved \<open>; / ? : @ & = + $ ,\<close>
  and \<open>#\<close>) stays, any other is replaced by the escapes of its UTF-8 bytes, one byte
  below 128 and two from there on, in upper case hexadecimal.
\<close>

definition uriUnescaped :: "char \<Rightarrow> bool" where
  "uriUnescaped c =
     (let n = (of_char c :: nat)
      in (65 \<le> n \<and> n \<le> 90) \<or> (97 \<le> n \<and> n \<le> 122) \<or> (48 \<le> n \<and> n \<le> 57) \<or>
         c \<in> set (''-_.!~*()'' @ [CHR 0x27]) \<or> c \<in> set '';/?:@&=+$,#'')"

definition hexDigit :: "nat \<Rightarrow> char" where
  "hexDigit d = ''0123456789ABCDEF'' ! (d mod 16)"

definition hex2 :: "nat \<Rightarrow> string" where
  "hex2 n = [hexDigit (n div 16), hexDigit (n mod 16)]"

definition encodeChar :: "char \<Rightarrow> string" where
  "encodeChar c =
     (let n = (of_char c :: nat)
      in if uriUnescaped c then [c]
         else if n < 128 then CHR ''%'' # hex2 n
         else CHR ''%'' # hex2 (192 + n div 64) @ CHR ''%'' # hex2 (128 + n mod 64))"

definition encodeURI :: "string \<Rightarrow> string" where
  "encodeURI s = concat (map encodeChar s)"

text \<open>
  The template literal handed to \<open>opn\<close> at the end of the launch branch: the optional
  query string is appended, URI-encoded, behind an \<open>&\<close> when it is truthy.
\<close>

definition launchUrl :: "manifest \<Rightarrow> jsval \<Rightarrow> jsval \<Rightarrow> string" where
  "launchUrl existingQbCliConfigs launchDbid pageId =
     (let encodedQueryString =
            (if js_truthy (urlQueryString existingQbCliConfigs)
             then ''&'' @ encodeURI (js_toString (urlQueryString existingQbCliConfigs)) else [])
      in ''https://'' @ js_toString (realm existingQbCliConfigs) @ ''.quickbase.com/db/'' @
         js_toString launchDbid @ ''?a=dbpage&pageID='' @ js_toString pageId @
         encodedQueryString)"

datatype launchCommand = LaunchProd | LaunchDev | LaunchFeat

text \<open>
  \<open>getLaunchParameters(args, existingQbCliConfigs)\<close> is a function of the module. After
  its three \<open>let\<close>s its first statement is \<open>if (!qbCliJsonExists)\<close>. That name is a
  \<open>const\<close> declared inside \<open>run\<close>; no scope around \<open>getLaunchParameters\<close> binds it, so
  reading it throws a \<open>ReferenceError\<close>, whatever the arguments, and no statement behind
  it is evaluated. The function is the same in both copies of the command. The result
  type is that of the object it would return: \<open>launchDbid\<close>, \<open>pageId\<close>,
  \<open>errorMessage\<close>.
\<close>

definition getLaunchParameters ::
  "launchCommand \<Rightarrow> manifest option \<Rightarrow> jserror + (jsval \<times> jsval \<times> jsval)" where
  "getLaunchParameters args existingQbCliConfigs = Inl (ReferenceError ''qbCliJsonExists'')"

text \<open>
  The launch branch of \<open>run\<close>, the same in both copies. The result is the events of the
  run and how it ended, \<open>Some e\<close> when \<open>run\<close> rejected with \<open>e\<close>: the branch has no
  \<open>try\<close>. Behind the call of \<open>getLaunchParameters\<close> come the test of \<open>pageId\<close>, the
  destructuring of \<open>existingQbCliConfigs\<close> (a \<open>TypeError\<close> on \<open>null\<close>), the test of the
  per-developer record, and \<open>opn\<close> with the URL.
\<close>

definition run_launch :: "world \<Rightarrow> launchCommand \<Rightarrow> event list \<times> jserror option" where
  "run_launch w args =
     (case getLaunchParameters args (qbcli w) of
        Inl e \<Rightarrow> ([], Some e)
      | Inr (launchDbid, pageId, errorMessage) \<Rightarrow>
          if \<not> js_truthy pageId then ([AlertError (js_toString errorMessage)], None)
          else
            (case qbcli w of
               None \<Rightarrow>
                 ([], Some (Error ''Cannot destructure property of null''))
             | Some existingQbCliConfigs \<Rightarrow>
                 (case configurationFile w (repositoryId existingQbCliConfigs) of
                    None \<Rightarrow> ([AlertError msg_init], None)
                  | Some configs \<Rightarrow>
                      ([Opn (launchUrl existingQbCliConfigs launchDbid pageId)], None))))"

fun opened_of :: "event list \<Rightarrow> string list" where
  "opened_of [] = []"
| "opened_of (Opn u # evs) = u # opened_of evs"
| "opened_of (_ # evs) = opened_of evs"

section \<open>The prefix generator\<close>

text \<open>
  Modelled from the spec: \<open>helpers.prefixGenerator\<close> (\<open>lib/helpers\<close>) is not part of
  the repository's sources as given. This is the mapping the specification describes for
  it: production \<open>\<rightarrow>\<close> \<open>prodPrefix\<close>, development \<open>\<rightarrow>\<close> \<open>devPrefix\<close>,
  feature \<open>\<rightarrow>\<close> the per-developer feature prefix (\<open>F\<close> if never set). The
  first three arguments are in the order \<open>run\<close> passes them: \<open>customPrefix\<close>,
  \<open>customPrefixProduction\<close>, \<open>customPrefixFeature\<close>.
\<close>

definition resolvedPrefix :: "jsval \<Rightarrow> jsval \<Rightarrow> jsval \<Rightarrow> deploymentType \<Rightarrow> string" where
  "resolvedPrefix customPrefix customPrefixProduction featurePrefix deploymentType =
     (case deploymentType of
        Prod \<Rightarrow> js_toString customPrefixProduction
      | Dev \<Rightarrow> js_toString customPrefix
      | Feat \<Rightarrow> (if featurePrefix = JUndefined then ''F'' else js_toString featurePrefix))"

text \<open>
  Modelled from the spec: \<open>helpers.prefixGenerator\<close> itself, missing as said above. By
  the specification it returns the resolved prefix and fails with \<open>MissingPrefix\<close>
  when the resolved prefix is empty. It takes the arguments of the call in \<open>run\<close>:
  the three prefixes, the deployment type, the repository id.
\<close>

definition prefixGenerator_spec ::
  "jsval \<Rightarrow> jsval \<Rightarrow> jsval \<Rightarrow> deploymentType \<Rightarrow> jsval \<Rightarrow> jserror + string" where
  "prefixGenerator_spec customPrefix customPrefixProduction featurePrefix deploymentType repoId =
     (let p = resolvedPrefix customPrefix customPrefixProduction featurePrefix deploymentType
      in if p = [] then Inl (Error ''MissingPrefix'') else Inr p)"

section \<open>Derived notions and worked inputs\<close>

text \<open>
  The request \<open>handleAPICalls\<close> makes \<open>addUpdateDbPage\<close> send for a page name and a
  page body: the manifest's \<open>dbid\<close> and \<open>realm\<close>, \<open>USERTOKEN\<close> and \<open>APP_TOKEN\<close> of
  the environment, the latter \<open>null\<close> by the default of the parameter when unset.
\<close>

definition upsert_request :: "(string \<rightharpoonup> string) \<Rightarrow> manifest \<Rightarrow> jsval \<Rightarrow> jsval \<Rightarrow> request" where
  "upsert_request e cfg pagename pagebody =
     axios_config (dbid cfg) (realm cfg) (env_get e ''USERTOKEN'')
       (if env_get e ''APP_TOKEN'' = JUndefined then JNull else env_get e ''APP_TOKEN'')
       pagename pagebody"

text \<open>Element \<open>i\<close> of an array, \<open>undefined\<close> out of range.\<close>

definition elem :: "jsval list \<Rightarrow> nat \<Rightarrow> jsval" where
  "elem xs i = (if i < length xs then xs ! i else JUndefined)"

text \<open>
  A manifest as in the scenarios of the specification: prefixes \<open>P\<close> and \<open>D\<close>, realm
  \<open>acme\<close>, target \<open>abc123\<close>, and the given file entries and query string.
\<close>

definition ex_manifest :: "fileConf list \<Rightarrow> string \<Rightarrow> manifest" where
  "ex_manifest fcs q =
     \<lparr> urlQueryString = JString q, repositoryId = JString ''repo'',
       prodPrefix = JString ''P'', devPrefix = JString ''D'',
       dbid = JString ''abc123'', devDbid = JString [],
       devAndProdQuickBaseApplications = JString ''no'', realm = JString ''acme'',
       filesConf = fcs \<rparr>"

definition ex_file :: "string \<Rightarrow> jsval \<Rightarrow> fileConf" where
  "ex_file name isIndex =
     \<lparr> filename = name, path = ''./'', dependencies = None, isIndexFile = isIndex \<rparr>"

text \<open>
  A world around such a manifest: \<open>disk\<close> maps the paths that exist to their contents,
  the developer has been initialised with feature prefix \<open>F\<close>, the prompt is answered
  \<open>yes\<close>, the prefix generator returns the prefix of the deployment type, the user token
  is \<open>tok\<close>, and \<open>ax\<close> is the server.
\<close>

definition ex_world ::
  "fileConf list \<Rightarrow> (string \<rightharpoonup> string) \<Rightarrow> (nat \<Rightarrow> request \<Rightarrow> jserror option) \<Rightarrow> world" where
  "ex_world fcs disk ax =
     \<lparr> qbcli = Some (ex_manifest fcs []),
       files = \<lparr> fileFolderExists = (\<lambda>p. disk p \<noteq> None),
                 getFileContents = (\<lambda>p. case disk p of
                                          None \<Rightarrow> Inl (Error ''ENOENT'')
                                        | Some c \<Rightarrow> Inr c),
                 saveJSONToFile = (\<lambda>m. None) \<rparr>,
       configurationFile = (\<lambda>r. Some \<lparr> customPrefixFeature = JString ''F'' \<rparr>),
       confirmation = (\<lambda>t. ''yes''),
       prefixGenerator = (\<lambda>customPrefix customPrefixProduction featurePrefix t r.
                            Inr (js_toString (case t of Prod \<Rightarrow> customPrefixProduction
                                                | Dev \<Rightarrow> customPrefix
                                                | Feat \<Rightarrow> featurePrefix))),
       env = [''USERTOKEN'' \<mapsto> ''tok''],
       axios = ax \<rparr>"

text \<open>A server that rejects the first request of a run with the message \<open>boom\<close>.\<close>

definition ex_failing_first :: "nat \<Rightarrow> request \<Rightarrow> jserror option" where
  "ex_failing_first k r = (if k = 0 then Some (Error ''boom'') else None)"

text \<open>The array the \<open>map\<close> of the deploy branch produces from the loaded triples.\<close>

definition formatted :: "string \<Rightarrow> (string \<times> string \<times> bool) list \<Rightarrow> jsval list" where
  "formatted prefix arr = map (\<lambda>(n, c, b). JArray [JString (prefix @ n), JString c]) arr"

text \<open>Two files \<open>a.js\<close> and \<open>b.js\<close> on disk, both listed, deployed to a server that
  rejects the first request.\<close>

definition ex_two_files :: world where
  "ex_two_files =
     ex_world [ex_file ''a.js'' JUndefined, ex_file ''b.js'' JUndefined]
       [''a.js'' \<mapsto> ''1'', ''b.js'' \<mapsto> ''2''] ex_failing_first"

text \<open>Two files on disk, both listed with \<open>isIndexFile: 'yes'\<close>.\<close>

definition ex_two_index :: world where
  "ex_two_index =
     ex_world [ex_file ''a.html'' (JString ''yes''), ex_file ''b.html'' (JString ''yes'')]
       [''a.html'' \<mapsto> ''<a>'', ''b.html'' \<mapsto> ''<b>''] (\<lambda>k r. None)"

text \<open>Two files listed, of which only \<open>b.js\<close> is on disk.\<close>

definition ex_one_missing :: world where
  "ex_one_missing =
     ex_world [ex_file ''missing.js'' JUndefined, ex_file ''b.js'' JUndefined]
       [''b.js'' \<mapsto> ''2''] (\<lambda>k r. None)"

text \<open>One file listed, on disk, with no content.\<close>

definition ex_blank :: world where
  "ex_blank = ex_world [ex_file ''x.html'' JUndefined] [''x.html'' \<mapsto> []] (\<lambda>k r. None)"

text \<open>A manifest that lists no file, and one whose only file is not on disk.\<close>

definition ex_no_files :: world where
  "ex_no_files = ex_world [] Map.empty (\<lambda>k r. None)"

definition ex_all_missing :: world where
  "ex_all_missing = ex_world [ex_file ''gone.js'' JUndefined] Map.empty (\<lambda>k r. None)"

text \<open>
  A manifest whose production prefix is the empty string, with \<open>a.js\<close> on disk, and the
  prefix generator of the specification.
\<close>

definition ex_no_prefix :: world where
  "ex_no_prefix =
     (ex_world [ex_file ''a.js'' JUndefined] [''a.js'' \<mapsto> ''1''] (\<lambda>k r. None))
       \<lparr> qbcli := Some ((ex_manifest [ex_file ''a.js'' JUndefined] []) \<lparr> prodPrefix := JString [] \<rparr>),
         prefixGenerator := prefixGenerator_spec \<rparr>"

text \<open>
  The scenario of the specification: \<open>a.js\<close> with content \<open>1\<close>, marked as the index
  file.
\<close>

definition ex_scenario :: world where
  "ex_scenario = ex_world [ex_file ''a.js'' (JString ''yes'')] [''a.js'' \<mapsto> ''1''] (\<lambda>k r. None)"

text \<open>The same project with a query string \<open>x=1\<close> in its manifest.\<close>

definition ex_initialised :: world where
  "ex_initialised =
     ex_scenario \<lparr> qbcli := Some (ex_manifest [ex_file ''a.js'' (JString ''yes'')] ''x=1'') \<rparr>"

section \<open>Basic facts about events and the upsert call\<close>

lemma posts_of_append: "posts_of (xs @ ys) = posts_of xs @ posts_of ys"
  by (induction xs rule: posts_of.induct) simp_all

lemma errors_of_append: "errors_of (xs @ ys) = errors_of xs @ errors_of ys"
  by (induction xs rule: errors_of.induct) simp_all

lemma warnings_of_append: "warnings_of (xs @ ys) = warnings_of xs @ warnings_of ys"
  by (induction xs rule: warnings_of.induct) simp_all

text \<open>
  On an array \<open>handleAPICalls\<close> never throws: it sends one request, built from the
  elements 0 and 1, and prints success or the message of the rejection.
\<close>

lemma handleAPICalls_array:
  "handleAPICalls ax e ty (JArray xs) cfg =
     [SpinnerStart ''Deploying files...'',
      Post (upsert_request e cfg (elem xs 0) (elem xs 1)),
      SpinnerStop,
      (case ax (upsert_request e cfg (elem xs 0) (elem xs 1)) of
         None \<Rightarrow> AlertSuccess (''Files have been successfully deployed to the '' @
                                deploymentType_str ty @ '' environment.'')
       | Some err \<Rightarrow> AlertError (message err))]"
  by (simp add: handleAPICalls_def addUpdateDbPage_def upsert_request_def elem_def Let_def
      split: option.split)

lemma posts_of_handleAPICalls_array:
  "posts_of (handleAPICalls ax e ty (JArray xs) cfg) =
     [upsert_request e cfg (elem xs 0) (elem xs 1)]"
  by (simp add: handleAPICalls_array split: option.split)

lemma errors_of_handleAPICalls_array:
  "errors_of (handleAPICalls ax e ty (JArray xs) cfg) =
     (case ax (upsert_request e cfg (elem xs 0) (elem xs 1)) of
        None \<Rightarrow> []
      | Some err \<Rightarrow> [message err])"
  by (simp add: handleAPICalls_array split: option.split)

lemma url_upsert_request:
  "url (upsert_request e cfg pn pb) = js_toString (realm cfg) @ ''/db/'' @ js_toString (dbid cfg)"
  by (simp add: upsert_request_def axios_config_def Let_def)

section \<open>The URL of an upsert (C5)\<close>

text \<open>
  C5, as the code has it. For a prepared file \<open>[pagename, pagebody]\<close> the sync client
  sends exactly one request, a POST, and its URL is the manifest's realm, then \<open>/db/\<close>,
  then the manifest's target identifier: the realm is used as it stands and no
  \<open>https://\<close> is put in front of it.
\<close>

theorem sync_client_post_url:
  "posts_of (handleAPICalls ax e ty (JArray [JString pagename, JString pagebody]) cfg) =
     [upsert_request e cfg (JString pagename) (JString pagebody)] \<and>
   http_method (upsert_request e cfg (JString pagename) (JString pagebody)) = ''post'' \<and>
   url (upsert_request e cfg (JString pagename) (JString pagebody)) =
     js_toString (realm cfg) @ ''/db/'' @ js_toString (dbid cfg)"
  by (simp add: posts_of_handleAPICalls_array elem_def url_upsert_request)
    (simp add: upsert_request_def axios_config_def Let_def)

text \<open>
  The scenario of the specification (realm \<open>acme\<close>, target \<open>abc123\<close>, one file
  \<open>a.js\<close> with content \<open>1\<close>, production): the one POST goes to \<open>acme/db/abc123\<close>,
  not to \<open>https://acme/db/abc123\<close>.
\<close>

theorem sync_client_post_url_counterexample:
  "map url (posts_of (fst (run_deploy
      (ex_world [ex_file ''a.js'' (JString ''yes'')] [''a.js'' \<mapsto> ''1''] (\<lambda>k r. None)) Prod))) =
     [''acme/db/abc123''] \<and>
   map url (posts_of (fst (run_deploy
      (ex_world [ex_file ''a.js'' (JString ''yes'')] [''a.js'' \<mapsto> ''1''] (\<lambda>k r. None)) Prod))) \<noteq>
     [''https://acme/db/abc123'']"
  by (simp add: run_deploy_def ex_world_def ex_manifest_def ex_file_def getAllFileContents_def
      posts_of_append posts_of_handleAPICalls_array elem_def url_upsert_request)

section \<open>The loader, the map and the loop\<close>

lemma mapFiles_fst: "fst (mapFiles prefix arr idx) = formatted prefix arr"
  by (induction arr arbitrary: idx) (auto simp: formatted_def split_beta Let_def)

lemma mapFiles_snd:
  "snd (mapFiles prefix arr idx) =
     (case filter (\<lambda>(n, c, b). b) arr of [] \<Rightarrow> idx | t # ts \<Rightarrow> Some (fst (last (t # ts))))"
  by (induction arr arbitrary: idx) (auto simp: split_beta Let_def split: list.splits)

lemma deployLoop_posts:
  "posts_of (deployLoop w ty cfg i (formatted prefix arr)) =
     map (\<lambda>(n, c, b). upsert_request (env w) cfg (JString (prefix @ n)) (JString c)) arr"
  by (induction arr arbitrary: i)
    (auto simp: formatted_def posts_of_append posts_of_handleAPICalls_array elem_def)

lemma deployLoop_errors:
  "errors_of (deployLoop w ty cfg i (formatted prefix arr)) =
     concat (map (\<lambda>(k, (n, c, b)).
                    case axios w k (upsert_request (env w) cfg (JString (prefix @ n)) (JString c)) of
                      None \<Rightarrow> []
                    | Some err \<Rightarrow> [message err])
                 (enumerate i arr))"
  by (induction arr arbitrary: i)
    (auto simp: formatted_def errors_of_append errors_of_handleAPICalls_array elem_def)

lemma getAllFileContents_events:
  "getAllFileContents fl fcs prefix = (evs, Inr arr) \<Longrightarrow>
     evs = [SpinnerStart ''Loading files...'', SpinnerStop] \<and> loadLoop fl fcs [] = Inr arr"
  by (auto simp: getAllFileContents_def split: sum.splits)

lemma getAllFileContents_Nil:
  "getAllFileContents fl [] prefix = ([SpinnerStart ''Loading files...'', SpinnerStop], Inr [])"
  by (simp add: getAllFileContents_def)

text \<open>
  The deploy branch once the manifest is there, the developer is initialised, the prompt
  is answered \<open>yes\<close> (or not asked), the prefix is generated and the files are loaded.
\<close>

lemma run_deploy_loaded:
  assumes "qbcli w = Some cfg"
    and "configurationFile w (repositoryId cfg) = Some configs"
    and "ty = Feat \<or> confirmation w ty = ''yes''"
    and "prefixGenerator w (devPrefix cfg) (prodPrefix cfg) (customPrefixFeature configs) ty
           (repositoryId cfg) = Inr prefix"
    and "getAllFileContents (files w) (filesConf cfg) prefix = (evs, Inr arr)"
    and "arr \<noteq> []"
  shows "run_deploy w ty =
           (evs @ deployLoop w ty cfg 0 (formatted prefix arr),
            snd (mapFiles prefix arr None), None)"
proof -
  have "filesConf cfg \<noteq> []"
    using assms(5,6) by (auto simp: getAllFileContents_Nil)
  then show ?thesis
    using assms by (auto simp: run_deploy_def split_beta mapFiles_fst)
qed

lemma run_deploy_loaded_empty:
  assumes "qbcli w = Some cfg"
    and "configurationFile w (repositoryId cfg) = Some configs"
    and "ty = Feat \<or> confirmation w ty = ''yes''"
    and "prefixGenerator w (devPrefix cfg) (prodPrefix cfg) (customPrefixFeature configs) ty
           (repositoryId cfg) = Inr prefix"
    and "getAllFileContents (files w) (filesConf cfg) prefix = (evs, Inr [])"
  shows "run_deploy w ty =
           (if filesConf cfg = [] then ([AlertError msg_list_files], None, None)
            else (evs @ [AlertError msg_check], None, None))"
  using assms by (auto simp: run_deploy_def)

section \<open>Failure of an upsert (C1)\<close>

text \<open>
  C1, as the code has it. Once the files are loaded the deploy command issues one upsert
  per loaded file, one at a time in the order of the manifest, whatever the server
  answers: a rejected call does not abort the batch, the calls behind it are still made.
  Every rejected call is reported with the \<open>message\<close> of its error, unchanged, in the
  order of the calls.
\<close>

theorem deploy_continues_after_failure:
  assumes "qbcli w = Some cfg"
    and "configurationFile w (repositoryId cfg) = Some configs"
    and "ty = Feat \<or> confirmation w ty = ''yes''"
    and "prefixGenerator w (devPrefix cfg) (prodPrefix cfg) (customPrefixFeature configs) ty
           (repositoryId cfg) = Inr prefix"
    and "getAllFileContents (files w) (filesConf cfg) prefix = (evs, Inr arr)"
  shows "posts_of (fst (run_deploy w ty)) =
           map (\<lambda>(n, c, b). upsert_request (env w) cfg (JString (prefix @ n)) (JString c)) arr \<and>
         (arr \<noteq> [] \<longrightarrow>
          errors_of (fst (run_deploy w ty)) =
            concat (map (\<lambda>(k, (n, c, b)).
                           case axios w k (upsert_request (env w) cfg (JString (prefix @ n))
                                             (JString c)) of
                             None \<Rightarrow> []
                           | Some err \<Rightarrow> [message err])
                        (enumerate 0 arr)))"
proof (cases "arr = []")
  case True
  have "evs = [SpinnerStart ''Loading files...'', SpinnerStop]"
    using assms(5) by (simp add: getAllFileContents_events)
  then show ?thesis
    using True run_deploy_loaded_empty [OF assms(1-4)] assms(5)
    by (simp add: posts_of_append)
next
  case False
  have evs: "evs = [SpinnerStart ''Loading files...'', SpinnerStop]"
    using assms(5) by (simp add: getAllFileContents_events)
  have "run_deploy w ty =
          (evs @ deployLoop w ty cfg 0 (formatted prefix arr), snd (mapFiles prefix arr None), None)"
    using assms False by (rule run_deploy_loaded)
  then show ?thesis
    using False evs
    by (simp add: posts_of_append errors_of_append deployLoop_posts deployLoop_errors)
qed

text \<open>
  Two files, the first upsert rejected with \<open>boom\<close>: both are posted and \<open>boom\<close> is
  what is reported.
\<close>

theorem deploy_continues_after_failure_witness:
  "posts_of (fst (run_deploy ex_two_files Feat)) =
     [upsert_request (env ex_two_files)
        (ex_manifest [ex_file ''a.js'' JUndefined, ex_file ''b.js'' JUndefined] [])
        (JString ''Fa.js'') (JString ''1''),
      upsert_request (env ex_two_files)
        (ex_manifest [ex_file ''a.js'' JUndefined, ex_file ''b.js'' JUndefined] [])
        (JString ''Fb.js'') (JString ''2'')] \<and>
   errors_of (fst (run_deploy ex_two_files Feat)) = [''boom'']"
proof -
  let ?cfg = "ex_manifest [ex_file ''a.js'' JUndefined, ex_file ''b.js'' JUndefined] []"
  have h1: "qbcli ex_two_files = Some ?cfg"
    by (simp add: ex_two_files_def ex_world_def)
  have h2: "configurationFile ex_two_files (repositoryId ?cfg) =
              Some \<lparr> customPrefixFeature = JString ''F'' \<rparr>"
    by (simp add: ex_two_files_def ex_world_def)
  have h3: "Feat = Feat \<or> confirmation ex_two_files Feat = ''yes''"
    by simp
  have h4: "prefixGenerator ex_two_files (devPrefix ?cfg) (prodPrefix ?cfg)
              (customPrefixFeature \<lparr> customPrefixFeature = JString ''F'' \<rparr>) Feat
              (repositoryId ?cfg) = Inr ''F''"
    by (simp add: ex_two_files_def ex_world_def)
  have h5: "getAllFileContents (files ex_two_files) (filesConf ?cfg) ''F'' =
              ([SpinnerStart ''Loading files...'', SpinnerStop],
               Inr [(''a.js'', ''1'', False), (''b.js'', ''2'', False)])"
    by (simp add: ex_two_files_def ex_world_def ex_manifest_def ex_file_def
        getAllFileContents_def)
  have ax: "axios ex_two_files = ex_failing_first"
    by (simp add: ex_two_files_def ex_world_def)
  show ?thesis
    using deploy_continues_after_failure [OF h1 h2 h3 h4 h5]
    by (simp add: ax ex_failing_first_def)
qed

text \<open>
  The same run, event by event: the first POST is rejected and \<open>boom\<close> is printed, and
  then the second POST is issued all the same.
\<close>

theorem stop_on_first_failure_counterexample:
  "fst (run_deploy ex_two_files Feat) =
     [SpinnerStart ''Loading files...'', SpinnerStop,
      SpinnerStart ''Deploying files...'',
      Post (upsert_request [''USERTOKEN'' \<mapsto> ''tok'']
              (ex_manifest [ex_file ''a.js'' JUndefined, ex_file ''b.js'' JUndefined] [])
              (JString ''Fa.js'') (JString ''1'')),
      SpinnerStop, AlertError ''boom'',
      SpinnerStart ''Deploying files...'',
      Post (upsert_request [''USERTOKEN'' \<mapsto> ''tok'']
              (ex_manifest [ex_file ''a.js'' JUndefined, ex_file ''b.js'' JUndefined] [])
              (JString ''Fb.js'') (JString ''2'')),
      SpinnerStop,
      AlertSuccess ''Files have been successfully deployed to the feat environment.''] \<and>
   axios ex_two_files 0
     (upsert_request [''USERTOKEN'' \<mapsto> ''tok'']
        (ex_manifest [ex_file ''a.js'' JUndefined, ex_file ''b.js'' JUndefined] [])
        (JString ''Fa.js'') (JString ''1'')) = Some (Error ''boom'')"
  by (simp add: run_deploy_def ex_two_files_def ex_world_def ex_failing_first_def
      ex_manifest_def ex_file_def getAllFileContents_def handleAPICalls_array elem_def)

section \<open>What the loader keeps\<close>

lemma loadLoop_acc:
  "loadLoop fl fcs acc =
     (case loadLoop fl fcs [] of Inl e \<Rightarrow> Inl e | Inr arr \<Rightarrow> Inr (acc @ arr))"
proof (induction fcs arbitrary: acc)
  case Nil
  then show ?case by simp
next
  case (Cons fc fcs)
  show ?case
  proof (cases "fileFolderExists fl (filename fc)")
    case False
    then show ?thesis using Cons.IH [of acc] by simp
  next
    case True
    show ?thesis
    proof (cases "getFileContents fl (filename fc)")
      case (Inl e)
      then show ?thesis using True by simp
    next
      case (Inr c)
      let ?t = "(filename fc, c, isIndexFile fc = JString ''yes'')"
      have "loadLoop fl (fc # fcs) acc = loadLoop fl fcs (acc @ [?t])"
        using True Inr by simp
      moreover have "loadLoop fl (fc # fcs) [] = loadLoop fl fcs [?t]"
        using True Inr by simp
      ultimately show ?thesis
        using Cons.IH [of "acc @ [?t]"] Cons.IH [of "[?t]"]
        by (simp split: sum.splits)
    qed
  qed
qed

lemma loadLoop_missing:
  "\<not> fileFolderExists fl (filename fc) \<Longrightarrow>
     loadLoop fl (xs @ fc # ys) acc = loadLoop fl (xs @ ys) acc"
  by (induction xs arbitrary: acc) (auto simp: Let_def split: sum.splits)

lemma loadLoop_all_missing:
  "\<forall>fc \<in> set fcs. \<not> fileFolderExists fl (filename fc) \<Longrightarrow> loadLoop fl fcs acc = Inr acc"
  by (induction fcs arbitrary: acc) auto

text \<open>
  When the load succeeds, the triples are those of the entries whose file exists, in the
  order of the manifest, each with the flag \<open>isIndexFile === 'yes'\<close> of its entry.
\<close>

lemma loadLoop_names_flags:
  "loadLoop fl fcs acc = Inr arr \<Longrightarrow>
     map (\<lambda>(n, c, b). (n, b)) arr =
       map (\<lambda>(n, c, b). (n, b)) acc @
       map (\<lambda>fc. (filename fc, isIndexFile fc = JString ''yes''))
         (filter (\<lambda>fc. fileFolderExists fl (filename fc)) fcs)"
proof (induction fcs arbitrary: acc)
  case Nil
  then show ?case by simp
next
  case (Cons fc fcs)
  show ?case
  proof (cases "fileFolderExists fl (filename fc)")
    case False
    then show ?thesis using Cons by simp
  next
    case True
    then obtain c where c: "getFileContents fl (filename fc) = Inr c"
      using Cons.prems by (cases "getFileContents fl (filename fc)") auto
    then have "loadLoop fl fcs (acc @ [(filename fc, c, isIndexFile fc = JString ''yes'')]) = Inr arr"
      using Cons.prems True by simp
    from Cons.IH [OF this] show ?thesis
      using True by simp
  qed
qed

lemma warnings_of_handleAPICalls: "warnings_of (handleAPICalls ax e ty f cfg) = []"
  by (cases f)
    (auto simp: handleAPICalls_def addUpdateDbPage_def Let_def warnings_of_append
      split: option.splits sum.splits)

lemma warnings_of_deployLoop: "warnings_of (deployLoop w ty cfg i fs) = []"
  by (induction fs arbitrary: i) (auto simp: warnings_of_append warnings_of_handleAPICalls)

lemma warnings_of_getAllFileContents: "warnings_of (fst (getAllFileContents fl fcs prefix)) = []"
  by (simp add: getAllFileContents_def split: sum.splits)

lemma warnings_of_run_deploy: "warnings_of (fst (run_deploy w ty)) = []"
  by (auto simp: run_deploy_def warnings_of_append warnings_of_deployLoop
      warnings_of_getAllFileContents split_beta split: option.splits sum.splits)

section \<open>A listed file that does not exist (C7)\<close>

text \<open>
  C7, as the code has it. An entry whose file does not exist (\<open>fileFolderExists\<close> on its
  \<open>filename\<close> is false) is passed over in silence: loading the list with the entry gives
  the very result, events included, of loading the list without it, so the rest of the
  batch loads as it would have and the missing file is no failure. No warning is emitted
  for it: neither the loader nor any other step of the deploy command prints a warning.
\<close>

theorem missing_file_skipped_silently:
  assumes "\<not> fileFolderExists fl (filename fc)"
  shows "getAllFileContents fl (xs @ fc # ys) prefix = getAllFileContents fl (xs @ ys) prefix \<and>
         warnings_of (fst (getAllFileContents fl (xs @ fc # ys) prefix)) = [] \<and>
         warnings_of (fst (run_deploy w ty)) = []"
  using assms
  by (simp add: getAllFileContents_def loadLoop_missing warnings_of_run_deploy
      split: sum.splits)

text \<open>\<open>missing.js\<close> is listed in front of \<open>b.js\<close> and is not on disk.\<close>

theorem missing_file_skipped_silently_witness:
  "getAllFileContents (files ex_one_missing)
     ([] @ ex_file ''missing.js'' JUndefined # [ex_file ''b.js'' JUndefined]) ''F'' =
   getAllFileContents (files ex_one_missing) ([] @ [ex_file ''b.js'' JUndefined]) ''F'' \<and>
   warnings_of (fst (getAllFileContents (files ex_one_missing)
     ([] @ ex_file ''missing.js'' JUndefined # [ex_file ''b.js'' JUndefined]) ''F'')) = [] \<and>
   warnings_of (fst (run_deploy ex_one_missing Feat)) = []"
proof -
  have h: "\<not> fileFolderExists (files ex_one_missing) (filename (ex_file ''missing.js'' JUndefined))"
    by (simp add: ex_one_missing_def ex_world_def ex_file_def)
  show ?thesis
    using missing_file_skipped_silently [OF h] by blast
qed

text \<open>
  The run with \<open>missing.js\<close> listed and absent, event by event: \<open>b.js\<close> is loaded and
  deployed, and nothing is printed about \<open>missing.js\<close>, no warning in particular.
\<close>

theorem missing_file_warning_counterexample:
  "\<not> fileFolderExists (files ex_one_missing) ''missing.js'' \<and>
   getAllFileContents (files ex_one_missing)
     [ex_file ''missing.js'' JUndefined, ex_file ''b.js'' JUndefined] ''F'' =
     ([SpinnerStart ''Loading files...'', SpinnerStop], Inr [(''b.js'', ''2'', False)]) \<and>
   fst (run_deploy ex_one_missing Feat) =
     [SpinnerStart ''Loading files...'', SpinnerStop,
      SpinnerStart ''Deploying files...'',
      Post (upsert_request [''USERTOKEN'' \<mapsto> ''tok'']
              (ex_manifest [ex_file ''missing.js'' JUndefined, ex_file ''b.js'' JUndefined] [])
              (JString ''Fb.js'') (JString ''2'')),
      SpinnerStop,
      AlertSuccess ''Files have been successfully deployed to the feat environment.''] \<and>
   warnings_of (fst (run_deploy ex_one_missing Feat)) = []"
  by (simp add: run_deploy_def ex_one_missing_def ex_world_def ex_manifest_def ex_file_def
      getAllFileContents_def handleAPICalls_array elem_def)

section \<open>The index file (C3)\<close>

text \<open>
  C3, as the code has it. The deploy command records at most one index file name
  (\<open>indexFileName\<close>, a single variable). When several loaded entries claim to be the
  index file (\<open>isIndexFile\<close> is \<open>'yes'\<close>), the name recorded is that of the last of them
  in manifest order, since the \<open>map\<close> callback overwrites the variable; it is \<open>null\<close>
  when none claims it. No claimant is demoted: each loaded triple carries the flag of
  its own entry.
\<close>

theorem index_file_last_wins:
  assumes "qbcli w = Some cfg"
    and "configurationFile w (repositoryId cfg) = Some configs"
    and "ty = Feat \<or> confirmation w ty = ''yes''"
    and "prefixGenerator w (devPrefix cfg) (prodPrefix cfg) (customPrefixFeature configs) ty
           (repositoryId cfg) = Inr prefix"
    and "getAllFileContents (files w) (filesConf cfg) prefix = (evs, Inr arr)"
    and "arr \<noteq> []"
  shows "fst (snd (run_deploy w ty)) =
           (case filter (\<lambda>fc. fileFolderExists (files w) (filename fc) \<and>
                              isIndexFile fc = JString ''yes'') (filesConf cfg) of
              [] \<Rightarrow> None
            | t # ts \<Rightarrow> Some (filename (last (t # ts)))) \<and>
         map (\<lambda>(n, c, b). (n, b)) arr =
           map (\<lambda>fc. (filename fc, isIndexFile fc = JString ''yes''))
             (filter (\<lambda>fc. fileFolderExists (files w) (filename fc)) (filesConf cfg))"
proof -
  let ?ex = "\<lambda>fc. fileFolderExists (files w) (filename fc)"
  let ?yes = "\<lambda>fc. isIndexFile fc = JString ''yes''"
  have load: "loadLoop (files w) (filesConf cfg) [] = Inr arr"
    using assms(5) by (simp add: getAllFileContents_events)
  have flags: "map (\<lambda>(n, c, b). (n, b)) arr =
                 map (\<lambda>fc. (filename fc, ?yes fc)) (filter ?ex (filesConf cfg))"
    using loadLoop_names_flags [OF load] by simp
  have run: "fst (snd (run_deploy w ty)) = snd (mapFiles prefix arr None)"
    using run_deploy_loaded [OF assms] by simp
  have "map fst (filter (\<lambda>(n, c, b). b) arr) =
          map fst (filter snd (map (\<lambda>(n, c, b). (n, b)) arr))"
    by (induction arr) auto
  also have "\<dots> = map fst (filter snd (map (\<lambda>fc. (filename fc, ?yes fc)) (filter ?ex (filesConf cfg))))"
    by (simp only: flags)
  also have "\<dots> = map filename (filter (\<lambda>fc. ?ex fc \<and> ?yes fc) (filesConf cfg))"
    by (induction "filesConf cfg") (auto simp: filter_map comp_def)
  finally have names:
    "map fst (filter (\<lambda>(n, c, b). b) arr) =
       map filename (filter (\<lambda>fc. ?ex fc \<and> ?yes fc) (filesConf cfg))" .
  have "snd (mapFiles prefix arr None) =
          (case map fst (filter (\<lambda>(n, c, b). b) arr) of
             [] \<Rightarrow> None | t # ts \<Rightarrow> Some (last (t # ts)))"
    by (simp add: mapFiles_snd last_map split: list.splits)
  also have "\<dots> =
          (case filter (\<lambda>fc. ?ex fc \<and> ?yes fc) (filesConf cfg) of
             [] \<Rightarrow> None | t # ts \<Rightarrow> Some (filename (last (t # ts))))"
    by (simp only: names) (simp add: last_map split: list.splits)
  finally show ?thesis
    using run flags by simp
qed

text \<open>
  \<open>a.html\<close> and \<open>b.html\<close> both claim to be the index file: the name recorded is
  \<open>b.html\<close>, and both triples are flagged.
\<close>

theorem index_file_last_wins_witness:
  "fst (snd (run_deploy ex_two_index Feat)) = Some ''b.html'' \<and>
   map (\<lambda>(n, c, b). (n, b)) [(''a.html'', ''<a>'', True), (''b.html'', ''<b>'', True)] =
     [(''a.html'', True), (''b.html'', True)]"
proof -
  let ?cfg = "ex_manifest [ex_file ''a.html'' (JString ''yes''), ex_file ''b.html'' (JString ''yes'')] []"
  have h1: "qbcli ex_two_index = Some ?cfg"
    by (simp add: ex_two_index_def ex_world_def)
  have h2: "configurationFile ex_two_index (repositoryId ?cfg) =
              Some \<lparr> customPrefixFeature = JString ''F'' \<rparr>"
    by (simp add: ex_two_index_def ex_world_def)
  have h3: "Feat = Feat \<or> confirmation ex_two_index Feat = ''yes''"
    by simp
  have h4: "prefixGenerator ex_two_index (devPrefix ?cfg) (prodPrefix ?cfg)
              (customPrefixFeature \<lparr> customPrefixFeature = JString ''F'' \<rparr>) Feat
              (repositoryId ?cfg) = Inr ''F''"
    by (simp add: ex_two_index_def ex_world_def)
  have h5: "getAllFileContents (files ex_two_index) (filesConf ?cfg) ''F'' =
              ([SpinnerStart ''Loading files...'', SpinnerStop],
               Inr [(''a.html'', ''<a>'', True), (''b.html'', ''<b>'', True)])"
    by (simp add: ex_two_index_def ex_world_def ex_manifest_def ex_file_def
        getAllFileContents_def)
  have h6: "[(''a.html'', ''<a>'', True), (''b.html'', ''<b>'', True)] \<noteq> []"
    by simp
  have fl: "fileFolderExists (files ex_two_index) = (\<lambda>p. p = ''b.html'' \<or> p = ''a.html'')"
    by (auto simp: ex_two_index_def ex_world_def)
  show ?thesis
    using index_file_last_wins [OF h1 h2 h3 h4 h5 h6]
    by (simp add: fl ex_manifest_def ex_file_def)
qed

text \<open>
  The same input against C3 as the specification states it: the loader flags both
  files, so more than one
  survivor is marked, and the name the deploy step records is that of the second
  claimant, not of the first.
\<close>

theorem index_file_first_wins_counterexample:
  "snd (getAllFileContents (files ex_two_index)
          [ex_file ''a.html'' (JString ''yes''), ex_file ''b.html'' (JString ''yes'')] ''F'') =
     Inr [(''a.html'', ''<a>'', True), (''b.html'', ''<b>'', True)] \<and>
   fst (snd (run_deploy ex_two_index Feat)) = Some ''b.html'' \<and>
   fst (snd (run_deploy ex_two_index Feat)) \<noteq> Some ''a.html''"
  by (simp add: run_deploy_def ex_two_index_def ex_world_def ex_manifest_def ex_file_def
      getAllFileContents_def split_beta)

section \<open>A file without content (C2)\<close>

text \<open>
  C2 at the input \<open>x.html\<close>, a file that exists and is empty. The loader has no test on
  the content: the file is put into the batch with its empty content, nothing is
  reported, and the deploy command posts a page with an empty body and prints success.
  The messages of the command say that blank files are not deployed.
\<close>

theorem blank_file_is_deployed:
  "getFileContents (files ex_blank) ''x.html'' = Inr [] \<and>
   getAllFileContents (files ex_blank) [ex_file ''x.html'' JUndefined] ''F'' =
     ([SpinnerStart ''Loading files...'', SpinnerStop], Inr [(''x.html'', [], False)]) \<and>
   fst (run_deploy ex_blank Feat) =
     [SpinnerStart ''Loading files...'', SpinnerStop,
      SpinnerStart ''Deploying files...'',
      Post (upsert_request [''USERTOKEN'' \<mapsto> ''tok'']
              (ex_manifest [ex_file ''x.html'' JUndefined] [])
              (JString ''Fx.html'') (JString [])),
      SpinnerStop,
      AlertSuccess ''Files have been successfully deployed to the feat environment.'']"
  by (simp add: run_deploy_def ex_blank_def ex_world_def ex_manifest_def ex_file_def
      getAllFileContents_def handleAPICalls_array elem_def)

section \<open>Nothing to deploy (C6)\<close>

lemma getAllFileContents_all_missing:
  "\<forall>fc \<in> set fcs. \<not> fileFolderExists fl (filename fc) \<Longrightarrow>
     getAllFileContents fl fcs prefix = ([SpinnerStart ''Loading files...'', SpinnerStop], Inr [])"
  by (simp add: getAllFileContents_def loadLoop_all_missing)

text \<open>
  C6. Take a manifest none of whose listed files exists; the empty list is the special
  case. The deploy command then sends no request at all. If the list is empty the command
  ends with the error \<open>You must list files to deploy in your qbcli.json.\<close>; if it is not
  empty and the command gets as far as loading (the developer is initialised, the prompt
  is not declined, a prefix is generated), loading leaves no entry and the command ends
  with the error that asks to check the paths and contents of the files.
\<close>

theorem empty_deployment:
  assumes "qbcli w = Some cfg"
    and "\<forall>fc \<in> set (filesConf cfg). \<not> fileFolderExists (files w) (filename fc)"
  shows "posts_of (fst (run_deploy w ty)) = [] \<and>
         (filesConf cfg = [] \<longrightarrow> run_deploy w ty = ([AlertError msg_list_files], None, None)) \<and>
         (filesConf cfg \<noteq> [] \<longrightarrow>
          configurationFile w (repositoryId cfg) = Some configs \<longrightarrow>
          (ty = Feat \<or> confirmation w ty = ''yes'') \<longrightarrow>
          prefixGenerator w (devPrefix cfg) (prodPrefix cfg) (customPrefixFeature configs) ty
            (repositoryId cfg) = Inr prefix \<longrightarrow>
          run_deploy w ty =
            ([SpinnerStart ''Loading files...'', SpinnerStop, AlertError msg_check], None, None))"
proof -
  have load: "\<And>p. getAllFileContents (files w) (filesConf cfg) p =
                  ([SpinnerStart ''Loading files...'', SpinnerStop], Inr [])"
    using assms(2) by (rule getAllFileContents_all_missing)
  show ?thesis
    using assms(1)
    by (auto simp: run_deploy_def load split: option.splits sum.splits)
qed

text \<open>
  An empty list and a list whose only file is gone, deployed to production: each run
  ends with its error and sends nothing.
\<close>

theorem empty_deployment_witness:
  "posts_of (fst (run_deploy ex_no_files Prod)) = [] \<and>
   run_deploy ex_no_files Prod = ([AlertError msg_list_files], None, None) \<and>
   posts_of (fst (run_deploy ex_all_missing Prod)) = [] \<and>
   run_deploy ex_all_missing Prod =
     ([SpinnerStart ''Loading files...'', SpinnerStop, AlertError msg_check], None, None)"
proof -
  have a1: "qbcli ex_no_files = Some (ex_manifest [] [])"
    by (simp add: ex_no_files_def ex_world_def)
  have a2: "\<forall>fc \<in> set (filesConf (ex_manifest [] [])).
              \<not> fileFolderExists (files ex_no_files) (filename fc)"
    by (simp add: ex_manifest_def)
  have a3: "filesConf (ex_manifest [] []) = []"
    by (simp add: ex_manifest_def)
  let ?cfg = "ex_manifest [ex_file ''gone.js'' JUndefined] []"
  have b1: "qbcli ex_all_missing = Some ?cfg"
    by (simp add: ex_all_missing_def ex_world_def)
  have b2: "\<forall>fc \<in> set (filesConf ?cfg). \<not> fileFolderExists (files ex_all_missing) (filename fc)"
    by (simp add: ex_manifest_def ex_all_missing_def ex_world_def)
  have b3: "filesConf ?cfg \<noteq> []"
    by (simp add: ex_manifest_def)
  have b4: "configurationFile ex_all_missing (repositoryId ?cfg) =
              Some \<lparr> customPrefixFeature = JString ''F'' \<rparr>"
    by (simp add: ex_all_missing_def ex_world_def)
  have b5: "Prod = Feat \<or> confirmation ex_all_missing Prod = ''yes''"
    by (simp add: ex_all_missing_def ex_world_def)
  have b6: "prefixGenerator ex_all_missing (devPrefix ?cfg) (prodPrefix ?cfg)
              (customPrefixFeature \<lparr> customPrefixFeature = JString ''F'' \<rparr>) Prod
              (repositoryId ?cfg) = Inr ''P''"
    by (simp add: ex_all_missing_def ex_world_def ex_manifest_def)
  show ?thesis
    using empty_deployment [OF a1 a2, of Prod] a3
      empty_deployment [OF b1 b2, of Prod "\<lparr> customPrefixFeature = JString ''F'' \<rparr>" "''P''"]
      b3 b4 b5 b6
    by blast
qed

section \<open>An empty prefix (C4)\<close>

text \<open>
  C4, with the prefix generator of the specification in the place of the missing
  \<open>helpers.prefixGenerator\<close>. If the prefix resolved for the requested deployment type
  is the empty string, the deploy command sends no request; and when the command gets as
  far as resolving the prefix (files are listed, the prompt is not declined), it ends
  there with the error \<open>MissingPrefix\<close>, which \<open>run\<close> does not catch: no file is read
  and nothing goes out under an unprefixed name.
\<close>

theorem missing_prefix_stops_deploy:
  assumes "prefixGenerator w = prefixGenerator_spec"
    and "qbcli w = Some cfg"
    and "configurationFile w (repositoryId cfg) = Some configs"
    and "resolvedPrefix (devPrefix cfg) (prodPrefix cfg) (customPrefixFeature configs) ty = []"
  shows "posts_of (fst (run_deploy w ty)) = [] \<and>
         (filesConf cfg \<noteq> [] \<longrightarrow> (ty = Feat \<or> confirmation w ty = ''yes'') \<longrightarrow>
          run_deploy w ty = ([], None, Some (Error ''MissingPrefix'')))"
  using assms
  by (auto simp: run_deploy_def prefixGenerator_spec_def)

text \<open>Production deploy of \<open>a.js\<close> with \<open>prodPrefix\<close> set to the empty string.\<close>

theorem missing_prefix_stops_deploy_witness:
  "resolvedPrefix (JString ''D'') (JString []) (JString ''F'') Prod = [] \<and>
   posts_of (fst (run_deploy ex_no_prefix Prod)) = [] \<and>
   run_deploy ex_no_prefix Prod = ([], None, Some (Error ''MissingPrefix''))"
proof -
  let ?cfg = "(ex_manifest [ex_file ''a.js'' JUndefined] []) \<lparr> prodPrefix := JString [] \<rparr>"
  have h1: "prefixGenerator ex_no_prefix = prefixGenerator_spec"
    by (simp add: ex_no_prefix_def)
  have h2: "qbcli ex_no_prefix = Some ?cfg"
    by (simp add: ex_no_prefix_def)
  have h3: "configurationFile ex_no_prefix (repositoryId ?cfg) =
              Some \<lparr> customPrefixFeature = JString ''F'' \<rparr>"
    by (simp add: ex_no_prefix_def ex_world_def)
  have h4: "resolvedPrefix (devPrefix ?cfg) (prodPrefix ?cfg)
              (customPrefixFeature \<lparr> customPrefixFeature = JString ''F'' \<rparr>) Prod = []"
    by (simp add: resolvedPrefix_def)
  have h5: "filesConf ?cfg \<noteq> []"
    by (simp add: ex_manifest_def)
  have h6: "Prod = Feat \<or> confirmation ex_no_prefix Prod = ''yes''"
    by (simp add: ex_no_prefix_def ex_world_def)
  show ?thesis
    using missing_prefix_stops_deploy [OF h1 h2 h3 h4] h5 h6
    by (simp add: resolvedPrefix_def)
qed

section \<open>Running init again (C8)\<close>

text \<open>
  C8. When \<open>qbcli.json\<close> exists, init leaves a manifest whose \<open>urlQueryString\<close> and
  \<open>filesConf\<close> are those of the prior manifest; and when the save goes through, the
  manifest persisted is the template's, regenerated from the environment, with exactly
  these two fields taken over. This holds for the init branch of \<open>index.js\<close> and for
  that of the other copy.
\<close>

theorem init_keeps_query_and_files:
  assumes "qbcli w = Some prior"
  shows "(\<exists>m. qbcli (fst (run_init w)) = Some m \<and>
              urlQueryString m = urlQueryString prior \<and> filesConf m = filesConf prior) \<and>
         (saveJSONToFile (files w) (init_data (env (fst (run_init w))) (Some prior)) = None \<longrightarrow>
          qbcli (fst (run_init w)) =
            Some ((qbcliTemplate (env (fst (run_init w))))
                    \<lparr> urlQueryString := urlQueryString prior, filesConf := filesConf prior \<rparr>)) \<and>
         (\<exists>m. qbcli (fst (run_init_part000 w input)) = Some m \<and>
              urlQueryString m = urlQueryString prior \<and> filesConf m = filesConf prior) \<and>
         (saveJSONToFile (files w) (init_data (env w) (Some prior)) = None \<longrightarrow>
          qbcli (fst (run_init_part000 w input)) =
            Some ((qbcliTemplate (env w))
                    \<lparr> urlQueryString := urlQueryString prior, filesConf := filesConf prior \<rparr>))"
  using assms
  by (auto simp: run_init_def run_init_part000_def init_data_def Let_def split: option.splits)

text \<open>
  Init run again on a project whose manifest has the query string \<open>x=1\<close> and lists
  \<open>a.js\<close>: both are in the new manifest, the other fields are the template's.
\<close>

theorem init_keeps_query_and_files_witness:
  "qbcli (fst (run_init ex_initialised)) =
     Some ((qbcliTemplate (env (fst (run_init ex_initialised))))
             \<lparr> urlQueryString := JString ''x=1'',
               filesConf := [ex_file ''a.js'' (JString ''yes'')] \<rparr>) \<and>
   qbcli (fst (run_init_part000 ex_initialised
            \<lparr> input_repositoryId = JString ''repo'', input_customPrefixFeature = JUndefined \<rparr>)) =
     Some ((qbcliTemplate (env ex_initialised))
             \<lparr> urlQueryString := JString ''x=1'',
               filesConf := [ex_file ''a.js'' (JString ''yes'')] \<rparr>)"
proof -
  let ?prior = "ex_manifest [ex_file ''a.js'' (JString ''yes'')] ''x=1''"
  have h: "qbcli ex_initialised = Some ?prior"
    by (simp add: ex_initialised_def)
  have s: "saveJSONToFile (files ex_initialised) = (\<lambda>m. None)"
    by (simp add: ex_initialised_def ex_scenario_def ex_world_def)
  have f: "urlQueryString ?prior = JString ''x=1''"
    "filesConf ?prior = [ex_file ''a.js'' (JString ''yes'')]"
    by (simp_all add: ex_manifest_def)
  show ?thesis
    using init_keeps_query_and_files [OF h,
        of "\<lparr> input_repositoryId = JString ''repo'', input_customPrefixFeature = JUndefined \<rparr>"]
    by (simp add: s f)
qed

section \<open>The two copies of the deploy command (C10)\<close>

lemma posts_of_run_deploy_part000: "posts_of (fst (run_deploy_part000 w ty)) = []"
  by (auto simp: run_deploy_part000_def part000_getAllFileContents_def
      split: option.splits sum.splits)

text \<open>
  C10 at the scenario of the specification (\<open>a.js\<close> with content \<open>1\<close>, production).
  \<open>index.js\<close> sends one request, page \<open>Pa.js\<close> with body \<open>1\<close>. The other copy gets
  as far as its \<open>try\<close> block, throws there on the unbound \<open>getAllFileContents\<close>, prints
  the message of its \<open>catch\<close> and sends nothing: the two do not issue the same requests.
  The other copy sends no request in any run.
\<close>

theorem part000_deploy_sends_nothing:
  "posts_of (fst (run_deploy ex_scenario Prod)) =
     [upsert_request [''USERTOKEN'' \<mapsto> ''tok'']
        (ex_manifest [ex_file ''a.js'' (JString ''yes'')] [])
        (JString ''Pa.js'') (JString ''1'')] \<and>
   run_deploy_part000 ex_scenario Prod = ([AlertError msg_check_catch], None, None) \<and>
   posts_of (fst (run_deploy ex_scenario Prod)) \<noteq>
     posts_of (fst (run_deploy_part000 ex_scenario Prod)) \<and>
   (\<forall>w ty. posts_of (fst (run_deploy_part000 w ty)) = [])"
proof -
  have one: "posts_of (fst (run_deploy ex_scenario Prod)) =
     [upsert_request [''USERTOKEN'' \<mapsto> ''tok'']
        (ex_manifest [ex_file ''a.js'' (JString ''yes'')] [])
        (JString ''Pa.js'') (JString ''1'')]"
    by (simp add: run_deploy_def ex_scenario_def ex_world_def ex_manifest_def ex_file_def
        getAllFileContents_def posts_of_append posts_of_handleAPICalls_array elem_def)
  have other: "run_deploy_part000 ex_scenario Prod = ([AlertError msg_check_catch], None, None)"
    by (simp add: run_deploy_part000_def part000_getAllFileContents_def ex_scenario_def
        ex_world_def ex_manifest_def ex_file_def)
  show ?thesis
    using one other posts_of_run_deploy_part000 by simp
qed

section \<open>The launch URL (C9)\<close>

lemma launchUrl_no_query:
  "urlQueryString cfg = JString [] \<Longrightarrow>
     launchUrl cfg launchDbid pageId =
       ''https://'' @ js_toString (realm cfg) @ ''.quickbase.com/db/'' @ js_toString launchDbid @
       ''?a=dbpage&pageID='' @ js_toString pageId"
  by (simp add: launchUrl_def)

text \<open>
  C9 at any launch, in particular the production launch of the project of the scenario with
  the query string \<open>x=1\<close>. The branch calls \<open>getLaunchParameters\<close> first, which throws
  on the unbound \<open>qbCliJsonExists\<close>; \<open>run\<close> rejects with that error, the statements that
  build the URL are not reached and nothing is handed to \<open>opn\<close>. No URL is produced, so
  there is none to parse back.
\<close>

theorem launch_builds_no_url:
  "run_launch w args = ([], Some (ReferenceError ''qbCliJsonExists'')) \<and>
   opened_of (fst (run_launch w args)) = [] \<and>
   run_launch ex_initialised LaunchProd = ([], Some (Error ''qbCliJsonExists is not defined''))"
  by (simp add: run_launch_def getLaunchParameters_def ReferenceError_def)

end
